theory Spec2Isabelle
  imports Complex_Main
begin

section \<open>Shared data: files, upload results, raw errors, calls to collaborators\<close>

text \<open>
  A browser \<open>File\<close> as far as the two components read it: \<open>file.type\<close> (the MIME
  type) and \<open>file.size\<close> (bytes). The name only tells files apart.
\<close>

record image_file =
  file_name :: string
  file_type :: string
  file_size :: nat

text \<open>What \<open>uploadChatPhoto\<close> and \<open>uploadProfileImage\<close> resolve to: \<open>result.url\<close>, \<open>result.path\<close>.\<close>

record upload_result =
  url :: string
  path :: string

text \<open>A thrown or rejected value (\<open>error: any\<close>), as a code and a message.\<close>

record raw_error =
  err_code :: string
  err_message :: string

text \<open>What \<open>validateImageFile\<close> returns, as \<open>handleFileSelect\<close> reads it:
  \<open>validation.isValid\<close> and the optional \<open>validation.error\<close>.\<close>

record validation =
  isValid :: bool
  verror :: "string option"

text \<open>The outcome of an awaited promise, and of a call to a callback of the parent.\<close>

datatype upload_outcome = Resolved upload_result | Rejected raw_error

datatype write_outcome = WriteResolved | WriteRejected raw_error

datatype callback_outcome = Returned | Threw raw_error

text \<open>A value written to a field of a document: a string, or a \<open>Date\<close> as a time stamp.\<close>

datatype field_value = VString string | VDate nat

text \<open>
  Every call the two handlers make to something outside the component, in the order made.
  The components' state records carry the list of calls made so far, so that
  "no upload was started" and "the raw error is only logged" are statements about it.
\<close>

datatype effect =
    ReadAsDataURL image_file
  | UploadChatPhoto image_file string string
  | OnPhotoSelected string string
  | OnCancel
  | UploadProfileImage image_file string
  | UpdateDoc string string "(string \<times> field_value) list"
  | ConsoleError string raw_error
  | ConsoleLog string
  | Alert string

text \<open>The calls that reach the file storage service.\<close>

fun storage_call :: "effect \<Rightarrow> bool" where
  "storage_call (UploadChatPhoto f c u) = True"
| "storage_call (UploadProfileImage f u) = True"
| "storage_call e = False"

text \<open>The calls that write to the document store.\<close>

fun document_write :: "effect \<Rightarrow> bool" where
  "document_write (UpdateDoc c d fs) = True"
| "document_write e = False"

section \<open>The photo upload dialog: \<open>PhotoSharingInput\<close>\<close>

text \<open>
  The imports from \<open>../lib/storageUtils\<close> that are called synchronously. The module is
  not among the sources, so the handlers take its two pure functions as a parameter.
\<close>

record storageUtils =
  validateImageFile :: "image_file \<Rightarrow> validation"
  getStorageErrorMessage :: "raw_error \<Rightarrow> string"

text \<open>The props \<open>chatId\<close> and \<open>userId\<close> are optional, with defaults.\<close>

record props =
  chatId :: "string option"
  userId :: "string option"

definition chatId_of :: "props \<Rightarrow> string" where
  "chatId_of p = (case chatId p of None \<Rightarrow> ''default'' | Some c \<Rightarrow> c)"

definition userId_of :: "props \<Rightarrow> string" where
  "userId_of p = (case userId p of None \<Rightarrow> ''anonymous'' | Some u \<Rightarrow> u)"

text \<open>
  The five \<open>useState\<close> cells of the component, and the calls made so far.
  \<open>uploadProgress\<close> is a JavaScript number (a percentage, possibly fractional).
\<close>

record session =
  selectedFile :: "image_file option"
  previewUrl :: string
  isUploading :: bool
  uploadProgress :: real
  error :: string
  calls :: "effect list"

definition init_session :: session where
  "init_session = \<lparr>selectedFile = None, previewUrl = [], isUploading = False,
     uploadProgress = 0, error = [], calls = []\<rparr>"

text \<open>
  \<open>handleFileSelect\<close>, lines 30-51. The argument is \<open>event.target.files?.[0]\<close>.
  \<open>validation.error || "Invalid file"\<close> takes the default when the error is undefined
  or the empty string. The reader's \<open>onload\<close> runs later: see \<open>reader_onload\<close>.
\<close>

definition handleFileSelect :: "storageUtils \<Rightarrow> image_file option \<Rightarrow> session \<Rightarrow> session" where
  "handleFileSelect lib fo s =
     (let s1 = s\<lparr>error := []\<rparr> in
      case fo of
        None \<Rightarrow> s1
      | Some f \<Rightarrow>
          (let v = validateImageFile lib f in
           if isValid v
           then s1\<lparr>selectedFile := Some f, calls := calls s1 @ [ReadAsDataURL f]\<rparr>
           else s1\<lparr>error := (case verror v of
                                None \<Rightarrow> ''Invalid file''
                              | Some m \<Rightarrow> if m = [] then ''Invalid file'' else m)\<rparr>))"

text \<open>
  \<open>reader.onload\<close>, lines 45-49. The argument is \<open>e.target?.result\<close>; the guard is
  JavaScript truthiness: neither null nor the empty string.
\<close>

definition reader_onload :: "string option \<Rightarrow> session \<Rightarrow> session" where
  "reader_onload res s =
     (case res of
        None \<Rightarrow> s
      | Some r \<Rightarrow> if r = [] then s else s\<lparr>previewUrl := r\<rparr>)"

text \<open>
  \<open>handleSendPhoto\<close>, lines 53-83, in the three pieces the \<open>await\<close> cuts it into.
  First the part that runs at once: the guard, the three setters and the call of
  \<open>uploadChatPhoto\<close> with the file, \<open>chatId\<close> and \<open>userId\<close> of the closure.
\<close>

definition handleSendPhoto :: "props \<Rightarrow> session \<Rightarrow> session" where
  "handleSendPhoto p s =
     (case selectedFile s of
        None \<Rightarrow> s
      | Some f \<Rightarrow>
          s\<lparr>isUploading := True, error := [], uploadProgress := 0,
            calls := calls s @ [UploadChatPhoto f (chatId_of p) (userId_of p)]\<rparr>)"

text \<open>The progress callback, line 66.\<close>

definition onProgress :: "real \<Rightarrow> session \<Rightarrow> session" where
  "onProgress pr s = s\<lparr>uploadProgress := pr\<rparr>"

text \<open>The \<open>catch\<close> block, lines 76-79.\<close>

definition catch_upload :: "storageUtils \<Rightarrow> raw_error \<Rightarrow> session \<Rightarrow> session" where
  "catch_upload lib e s =
     s\<lparr>error := getStorageErrorMessage lib e,
       calls := calls s @ [ConsoleError ''Error uploading photo:'' e]\<rparr>"

text \<open>
  What runs when the awaited upload settles, lines 69-82: on a result the parent's
  callback and the reset of three cells (a callback that throws lands in the \<open>catch\<close>
  block like a rejected upload); on a rejection the \<open>catch\<close> block; then \<open>finally\<close>.
\<close>

definition handleSendPhoto_settled ::
  "storageUtils \<Rightarrow> upload_outcome \<Rightarrow> callback_outcome \<Rightarrow> session \<Rightarrow> session" where
  "handleSendPhoto_settled lib out cb s =
     (let s1 =
        (case out of
           Resolved r \<Rightarrow>
             (let s2 = s\<lparr>calls := calls s @ [OnPhotoSelected (url r) (path r)]\<rparr> in
              case cb of
                Returned \<Rightarrow> s2\<lparr>selectedFile := None, previewUrl := [], uploadProgress := 0\<rparr>
              | Threw e \<Rightarrow> catch_upload lib e s2)
         | Rejected e \<Rightarrow> catch_upload lib e s)
      in s1\<lparr>isUploading := False\<rparr>)"

text \<open>
  One whole run of \<open>handleSendPhoto\<close>: the progress events in the order delivered, then
  the settlement. Without a selected file the handler returns before any of it.
\<close>

definition sendPhoto_run ::
  "storageUtils \<Rightarrow> props \<Rightarrow> real list \<Rightarrow> upload_outcome \<Rightarrow> callback_outcome \<Rightarrow> session \<Rightarrow> session" where
  "sendPhoto_run lib p prs out cb s =
     (case selectedFile s of
        None \<Rightarrow> s
      | Some f \<Rightarrow>
          handleSendPhoto_settled lib out cb
            (foldl (\<lambda>t pr. onProgress pr t) (handleSendPhoto p s) prs))"

text \<open>\<open>handleCancel\<close>, lines 85-91.\<close>

definition handleCancel :: "session \<Rightarrow> session" where
  "handleCancel s =
     s\<lparr>selectedFile := None, previewUrl := [], error := [], uploadProgress := 0,
       calls := calls s @ [OnCancel]\<rparr>"

text \<open>
  The inline handler of the two "discard" buttons, lines 213-216 and 238-241. The
  "Change Photo" button is disabled while \<open>isUploading\<close>; the round button on the
  preview is not.
\<close>

definition discardFile :: "session \<Rightarrow> session" where
  "discardFile s = s\<lparr>selectedFile := None, previewUrl := []\<rparr>"

subsection \<open>What the render function offers\<close>

text \<open>
  The file input is rendered in the branch \<open>!selectedFile\<close> (line 111); the
  "Send Photo" button in the other branch, with \<open>disabled={isUploading}\<close> (line 249).
\<close>

definition fileInputRendered :: "session \<Rightarrow> bool" where
  "fileInputRendered s = (selectedFile s = None)"

definition sendButtonEnabled :: "session \<Rightarrow> bool" where
  "sendButtonEnabled s = (case selectedFile s of None \<Rightarrow> False | Some f \<Rightarrow> \<not> isUploading s)"

subsection \<open>The specification's status, read off the component's state\<close>

text \<open>
  The component has no status cell. The status of the specification is read off the
  cells in the order the render function branches: without a selected file the session
  is \<open>Failed\<close> when an error is stored and \<open>Idle\<close> otherwise; with one it is
  \<open>Uploading\<close> while \<open>isUploading\<close>, \<open>Failed\<close> when an error is stored,
  \<open>Validating\<close> while the preview is still empty and \<open>Ready\<close> once it is there.
  \<open>Succeeded\<close> and \<open>Cancelled\<close> are passed through inside one handler and are never
  the status of a stored state.

  The status follows what the dialog shows. Without a selected file it does not read
  \<open>isUploading\<close>, as the render function does not: whether an upload of the session
  is still under way is the flag itself, and the counter of the event system below.
\<close>

datatype status = Idle | Validating | Ready | Uploading | Succeeded | Failed | Cancelled

definition status_of :: "session \<Rightarrow> status" where
  "status_of s =
     (case selectedFile s of
        None \<Rightarrow> if error s = [] then Idle else Failed
      | Some f \<Rightarrow>
          if isUploading s then Uploading
          else if error s = [] then (if previewUrl s = [] then Validating else Ready)
          else Failed)"

text \<open>
  The idle session of the specification, entered at mount and after a reset: no file
  chosen, nothing stored from an earlier attempt, and no upload of the session under
  way. In the cells: the status reads \<open>Idle\<close> and \<open>isUploading\<close> is not set.
\<close>

definition idle_session :: "session \<Rightarrow> bool" where
  "idle_session s = (status_of s = Idle \<and> \<not> isUploading s)"

subsection \<open>The dialog as an event system\<close>

text \<open>
  Everything that can happen to a mounted dialog: the user's actions, as far as the
  rendered elements allow them, and the callbacks of the reader and of an upload in
  flight. The number beside the session counts the uploads started and not yet settled.
\<close>

datatype event =
    FileChosen "image_file option"
  | ReaderLoaded "string option"
  | SendClicked
  | ProgressEvent real
  | UploadSettled upload_outcome callback_outcome
  | DiscardClicked
  | CancelClicked

fun enabled :: "event \<Rightarrow> session \<times> nat \<Rightarrow> bool" where
  "enabled (FileChosen fo) (s, n) = fileInputRendered s"
| "enabled (ReaderLoaded res) (s, n) = True"
| "enabled SendClicked (s, n) = sendButtonEnabled s"
| "enabled (ProgressEvent pr) (s, n) = (0 < n)"
| "enabled (UploadSettled out cb) (s, n) = (0 < n)"
| "enabled DiscardClicked (s, n) = (case selectedFile s of None \<Rightarrow> False | Some f \<Rightarrow> True)"
| "enabled CancelClicked (s, n) = True"

fun fire :: "storageUtils \<Rightarrow> props \<Rightarrow> event \<Rightarrow> session \<times> nat \<Rightarrow> session \<times> nat" where
  "fire lib p (FileChosen fo) (s, n) = (handleFileSelect lib fo s, n)"
| "fire lib p (ReaderLoaded res) (s, n) = (reader_onload res s, n)"
| "fire lib p SendClicked (s, n) = (handleSendPhoto p s, Suc n)"
| "fire lib p (ProgressEvent pr) (s, n) = (onProgress pr s, n)"
| "fire lib p (UploadSettled out cb) (s, n) = (handleSendPhoto_settled lib out cb s, n - 1)"
| "fire lib p DiscardClicked (s, n) = (discardFile s, n)"
| "fire lib p CancelClicked (s, n) = (handleCancel s, n)"

text \<open>A sequence of events runs as long as each event is enabled where it happens.\<close>

fun run_events ::
  "storageUtils \<Rightarrow> props \<Rightarrow> event list \<Rightarrow> session \<times> nat \<Rightarrow> (session \<times> nat) option" where
  "run_events lib p [] w = Some w"
| "run_events lib p (e # es) w =
     (if enabled e w then run_events lib p es (fire lib p e w) else None)"

subsection \<open>The validator and the error classifier of the specification\<close>

text \<open>
  The policy of the validator: the accepted MIME types, the size ceiling in bytes and
  the two user-facing messages.
\<close>

record policy =
  acceptedTypes :: "string list"
  maxSize :: nat
  typeMessage :: string
  sizeMessage :: string

text \<open>
  Modelled from the spec: \<open>validateImageFile\<close> of \<open>lib/storageUtils\<close> is not among the
  sources. The specification (4.1, selectFile) rejects a blob whose MIME type is not in
  the accepted image type set, rejects one whose byte size exceeds the configured
  maximum, and has a message describing which rule failed, type or size. The set, the
  maximum and the wording are the policy; the result has the shape the handler reads.
\<close>

definition validateImageFile_spec :: "policy \<Rightarrow> image_file \<Rightarrow> validation" where
  "validateImageFile_spec pol f =
     (if file_type f \<notin> set (acceptedTypes pol)
      then \<lparr>isValid = False, verror = Some (typeMessage pol)\<rparr>
      else if maxSize pol < file_size f
      then \<lparr>isValid = False, verror = Some (sizeMessage pol)\<rparr>
      else \<lparr>isValid = True, verror = None\<rparr>)"

datatype error_category = NetworkFailure | QuotaRejected | PermissionDenied | UnknownError

record classifier =
  categoryOf :: "raw_error \<Rightarrow> error_category"
  messageOf :: "error_category \<Rightarrow> string"

text \<open>
  Modelled from the spec: \<open>getStorageErrorMessage\<close> of \<open>lib/storageUtils\<close> is not among
  the sources. The specification (4.1, confirmSend; 6, error classifier) has a pure
  mapping of the raw error into one of four user-facing categories: network failure,
  quota or size rejected by the server, permission denied, unknown. How a raw error
  falls into a category, and the wording per category, are the classifier's.
\<close>

definition getStorageErrorMessage_spec :: "classifier \<Rightarrow> raw_error \<Rightarrow> string" where
  "getStorageErrorMessage_spec cl e = messageOf cl (categoryOf cl e)"

text \<open>The messages the classifier of the specification can give, one per category.\<close>

definition category_messages :: "classifier \<Rightarrow> string list" where
  "category_messages cl =
     [messageOf cl NetworkFailure, messageOf cl QuotaRejected,
      messageOf cl PermissionDenied, messageOf cl UnknownError]"

text \<open>The two functions together, as the module the handlers import.\<close>

definition storageUtils_spec :: "policy \<Rightarrow> classifier \<Rightarrow> storageUtils" where
  "storageUtils_spec pol cl =
     \<lparr>validateImageFile = validateImageFile_spec pol,
      getStorageErrorMessage = getStorageErrorMessage_spec cl\<rparr>"

subsection \<open>Example data\<close>

text \<open>
  A policy with a ceiling of 10 MB, a classifier by error code, three files, a raw error
  and an upload result, for evaluating the handlers. The wording of the messages is
  chosen here.
\<close>

definition example_policy :: policy where
  "example_policy =
     \<lparr>acceptedTypes = [''image/jpeg'', ''image/png'', ''image/gif'', ''image/webp''],
      maxSize = 10485760,
      typeMessage = ''Please choose an image file'',
      sizeMessage = ''The image is larger than 10MB''\<rparr>"

definition example_category :: "raw_error \<Rightarrow> error_category" where
  "example_category e =
     (if err_code e = ''storage/retry-limit-exceeded'' then NetworkFailure
      else if err_code e = ''storage/quota-exceeded'' then QuotaRejected
      else if err_code e = ''storage/unauthorized'' then PermissionDenied
      else UnknownError)"

fun example_message :: "error_category \<Rightarrow> string" where
  "example_message NetworkFailure = ''Network error, please try again''"
| "example_message QuotaRejected = ''Storage quota exceeded''"
| "example_message PermissionDenied = ''You may not upload here''"
| "example_message UnknownError = ''Upload failed''"

definition example_classifier :: classifier where
  "example_classifier = \<lparr>categoryOf = example_category, messageOf = example_message\<rparr>"

definition example_lib :: storageUtils where
  "example_lib = storageUtils_spec example_policy example_classifier"

definition example_props :: props where
  "example_props = \<lparr>chatId = None, userId = Some ''u1''\<rparr>"

definition jpeg_2MB :: image_file where
  "jpeg_2MB = \<lparr>file_name = ''photo.jpg'', file_type = ''image/jpeg'', file_size = 2097152\<rparr>"

definition png_15MB :: image_file where
  "png_15MB = \<lparr>file_name = ''big.png'', file_type = ''image/png'', file_size = 15728640\<rparr>"

definition pdf_1KB :: image_file where
  "pdf_1KB = \<lparr>file_name = ''cv.pdf'', file_type = ''application/pdf'', file_size = 1024\<rparr>"

definition network_down :: raw_error where
  "network_down =
     \<lparr>err_code = ''storage/retry-limit-exceeded'',
      err_message = ''Firebase Storage: Max retry time for operation exceeded''\<rparr>"

definition example_result :: upload_result where
  "example_result = \<lparr>url = ''https://cdn.example/photo.jpg'', path = ''chats/default/photo.jpg''\<rparr>"

text \<open>A session in which \<open>jpeg_2MB\<close> was chosen and its preview has arrived.\<close>

definition ready_session :: session where
  "ready_session =
     reader_onload (Some ''data:image/jpeg;base64,AAAA'')
       (handleFileSelect example_lib (Some jpeg_2MB) init_session)"

text \<open>The same session once "Send Photo" was clicked, and once that upload was rejected
  after one progress event of 40 percent.\<close>

definition uploading_session :: session where
  "uploading_session = handleSendPhoto example_props ready_session"

definition failed_session :: session where
  "failed_session =
     sendPhoto_run example_lib example_props [40] (Rejected network_down) Returned ready_session"

section \<open>The profile page: \<open>handleImageChange\<close> of \<open>ProfilePage\<close>\<close>

text \<open>\<open>auth.currentUser\<close>, of which the handler reads \<open>user.uid\<close>.\<close>

record user =
  uid :: string

text \<open>
  The three \<open>useState\<close> cells the handler writes (\<open>profileImage\<close>, \<open>uploadingImage\<close>
  and the page's own \<open>uploadProgress\<close>), and the calls made so far. The other cells of
  the page are not touched by the handler.
\<close>

record profile_page =
  profileImage :: "string option"
  uploadingImage :: bool
  uploadProgress_page :: real
  calls_page :: "effect list"

text \<open>
  \<open>handleImageChange\<close>, lines 135-166, in the pieces its two \<open>await\<close>s cut it into.
  First the guard \<open>!file || !user\<close>, the two setters and the call of \<open>uploadProfileImage\<close>.
\<close>

definition handleImageChange :: "image_file option \<Rightarrow> user option \<Rightarrow> profile_page \<Rightarrow> profile_page" where
  "handleImageChange fo uo s =
     (case fo of
        None \<Rightarrow> s
      | Some f \<Rightarrow>
          (case uo of
             None \<Rightarrow> s
           | Some u \<Rightarrow>
               s\<lparr>uploadingImage := True, uploadProgress_page := 0,
                 calls_page := calls_page s @ [UploadProfileImage f (uid u)]\<rparr>))"

text \<open>The progress callback, line 146.\<close>

definition onProgress_page :: "real \<Rightarrow> profile_page \<Rightarrow> profile_page" where
  "onProgress_page pr s = s\<lparr>uploadProgress_page := pr\<rparr>"

text \<open>The \<open>catch\<close> block, lines 159-161, and the \<open>finally\<close> block, lines 162-165.\<close>

definition catch_page :: "raw_error \<Rightarrow> profile_page \<Rightarrow> profile_page" where
  "catch_page e s =
     s\<lparr>calls_page := calls_page s @
         [ConsoleError ''Error uploading profile image:'' e,
          Alert ''Failed to upload image. Please try again.'']\<rparr>"

definition finally_page :: "profile_page \<Rightarrow> profile_page" where
  "finally_page s = s\<lparr>uploadingImage := False, uploadProgress_page := 0\<rparr>"

text \<open>The fields of the \<open>updateDoc\<close> call, lines 152-156; \<open>new Date()\<close> is the time \<open>now\<close>.\<close>

definition profile_fields :: "upload_result \<Rightarrow> nat \<Rightarrow> (string \<times> field_value) list" where
  "profile_fields r now =
     [(''profileImage'', VString (url r)),
      (''profileImagePath'', VString (path r)),
      (''updatedAt'', VDate now)]"

text \<open>
  When the upload settles, lines 149-156: on a result \<open>setProfileImage\<close> and the call
  of \<open>updateDoc\<close> on \<open>users/<uid>\<close>, whose promise is then awaited; on a rejection the
  \<open>catch\<close> and \<open>finally\<close> blocks.
\<close>

definition handleImageChange_uploaded ::
  "user \<Rightarrow> nat \<Rightarrow> upload_outcome \<Rightarrow> profile_page \<Rightarrow> profile_page" where
  "handleImageChange_uploaded u now out s =
     (case out of
        Resolved r \<Rightarrow>
          s\<lparr>profileImage := Some (url r),
            calls_page := calls_page s @ [UpdateDoc ''users'' (uid u) (profile_fields r now)]\<rparr>
      | Rejected e \<Rightarrow> finally_page (catch_page e s))"

text \<open>When the write settles, lines 158-165.\<close>

definition handleImageChange_written :: "write_outcome \<Rightarrow> profile_page \<Rightarrow> profile_page" where
  "handleImageChange_written w s =
     (case w of
        WriteResolved \<Rightarrow>
          finally_page
            (s\<lparr>calls_page := calls_page s @ [ConsoleLog ''Profile image uploaded successfully!'']\<rparr>)
      | WriteRejected e \<Rightarrow> finally_page (catch_page e s))"

text \<open>
  One whole run of the handler: the guard, the progress events, the upload's outcome
  and, when the upload gave a result, the write's outcome.
\<close>

definition imageChange_run ::
  "image_file option \<Rightarrow> user option \<Rightarrow> real list \<Rightarrow> upload_outcome \<Rightarrow> nat \<Rightarrow> write_outcome
     \<Rightarrow> profile_page \<Rightarrow> profile_page" where
  "imageChange_run fo uo prs out now w s =
     (case fo of
        None \<Rightarrow> s
      | Some f \<Rightarrow>
          (case uo of
             None \<Rightarrow> s
           | Some u \<Rightarrow>
               (let s1 = foldl (\<lambda>t pr. onProgress_page pr t) (handleImageChange fo uo s) prs;
                    s2 = handleImageChange_uploaded u now out s1
                in case out of
                     Resolved r \<Rightarrow> handleImageChange_written w s2
                   | Rejected e \<Rightarrow> s2)))"

definition example_user :: user where
  "example_user = \<lparr>uid = ''u1''\<rparr>"

definition example_page :: profile_page where
  "example_page =
     \<lparr>profileImage = Some ''https://cdn.example/old.webp'', uploadingImage = False,
      uploadProgress_page = 0, calls_page = []\<rparr>"

definition permission_denied :: raw_error where
  "permission_denied =
     \<lparr>err_code = ''permission-denied'', err_message = ''Missing or insufficient permissions.''\<rparr>"

section \<open>Properties of the photo upload dialog\<close>

subsection \<open>The handlers, case by case\<close>

lemma handleFileSelect_invalid:
  "\<not> isValid (validateImageFile lib f) \<Longrightarrow>
   handleFileSelect lib (Some f) s =
     s\<lparr>error := (case verror (validateImageFile lib f) of
                    None \<Rightarrow> ''Invalid file''
                  | Some m \<Rightarrow> if m = [] then ''Invalid file'' else m)\<rparr>"
  by (simp add: handleFileSelect_def Let_def)

lemma handleFileSelect_valid:
  "isValid (validateImageFile lib f) \<Longrightarrow>
   handleFileSelect lib (Some f) s =
     s\<lparr>error := [], selectedFile := Some f, calls := calls s @ [ReadAsDataURL f]\<rparr>"
  by (simp add: handleFileSelect_def Let_def)

lemma handleFileSelect_uploadProgress:
  "uploadProgress (handleFileSelect lib fo s) = uploadProgress s"
  by (simp add: handleFileSelect_def Let_def split: option.split)

lemma validateImageFile_spec_accepts:
  "isValid (validateImageFile_spec pol f) =
     (file_type f \<in> set (acceptedTypes pol) \<and> file_size f \<le> maxSize pol)"
  by (auto simp add: validateImageFile_spec_def)

lemma handleSendPhoto_noop_iff: "(handleSendPhoto p s = s) = (selectedFile s = None)"
proof (cases "selectedFile s")
  case None
  then show ?thesis by (simp add: handleSendPhoto_def)
next
  case (Some f)
  have "calls (handleSendPhoto p s) \<noteq> calls s"
    using Some by (simp add: handleSendPhoto_def)
  then have "handleSendPhoto p s \<noteq> s" by auto
  with Some show ?thesis by simp
qed

lemma foldl_onProgress:
  "foldl (\<lambda>t pr. onProgress pr t) s prs = s\<lparr>uploadProgress := last (uploadProgress s # prs)\<rparr>"
  by (induction prs arbitrary: s) (simp_all add: onProgress_def)

text \<open>A rejected upload leaves the progress at the last value reported, or at the 0 set
  when the upload began.\<close>

lemma sendPhoto_run_rejected:
  "selectedFile s = Some f \<Longrightarrow>
   sendPhoto_run lib p prs (Rejected e) cb s =
     s\<lparr>isUploading := False, error := getStorageErrorMessage lib e,
       uploadProgress := last (0 # prs),
       calls := calls s @ [UploadChatPhoto f (chatId_of p) (userId_of p),
                           ConsoleError ''Error uploading photo:'' e]\<rparr>"
  by (simp add: sendPhoto_run_def foldl_onProgress handleSendPhoto_def
        handleSendPhoto_settled_def catch_upload_def)

lemma handleCancel_isUploading: "isUploading (handleCancel s) = isUploading s"
  by (simp add: handleCancel_def)

subsection \<open>Whole runs of the profile page's handler\<close>

lemma foldl_onProgress_page:
  "foldl (\<lambda>t pr. onProgress_page pr t) s prs =
     s\<lparr>uploadProgress_page := last (uploadProgress_page s # prs)\<rparr>"
  by (induction prs arbitrary: s) (simp_all add: onProgress_page_def)

lemma imageChange_run_rejected:
  "imageChange_run (Some f) (Some u) prs (Rejected e) now w s =
     s\<lparr>uploadingImage := False, uploadProgress_page := 0,
       calls_page := calls_page s @
         [UploadProfileImage f (uid u),
          ConsoleError ''Error uploading profile image:'' e,
          Alert ''Failed to upload image. Please try again.'']\<rparr>"
  by (simp add: imageChange_run_def foldl_onProgress_page handleImageChange_def
        handleImageChange_uploaded_def catch_page_def finally_page_def)

lemma imageChange_run_resolved:
  "imageChange_run (Some f) (Some u) prs (Resolved r) now w s =
     s\<lparr>profileImage := Some (url r), uploadingImage := False, uploadProgress_page := 0,
       calls_page := calls_page s @
         [UploadProfileImage f (uid u), UpdateDoc ''users'' (uid u) (profile_fields r now)] @
         (case w of
            WriteResolved \<Rightarrow> [ConsoleLog ''Profile image uploaded successfully!'']
          | WriteRejected e \<Rightarrow>
              [ConsoleError ''Error uploading profile image:'' e,
               Alert ''Failed to upload image. Please try again.''])\<rparr>"
  by (simp add: imageChange_run_def foldl_onProgress_page handleImageChange_def
        handleImageChange_uploaded_def handleImageChange_written_def catch_page_def
        finally_page_def split: write_outcome.split)

subsection \<open>The example sessions, evaluated\<close>

lemma png_15MB_rejected: "\<not> isValid (validateImageFile example_lib png_15MB)"
  by (simp add: example_lib_def storageUtils_spec_def example_policy_def png_15MB_def
        validateImageFile_spec_def)

lemma pdf_1KB_rejected: "\<not> isValid (validateImageFile example_lib pdf_1KB)"
  by (simp add: example_lib_def storageUtils_spec_def example_policy_def pdf_1KB_def
        validateImageFile_spec_def)

lemma jpeg_2MB_accepted: "isValid (validateImageFile example_lib jpeg_2MB)"
  by (simp add: example_lib_def storageUtils_spec_def example_policy_def jpeg_2MB_def
        validateImageFile_spec_def)

lemma example_lib_validator:
  "validateImageFile example_lib = validateImageFile_spec example_policy"
  by (simp add: example_lib_def storageUtils_spec_def)

lemma example_lib_classifier:
  "getStorageErrorMessage example_lib = getStorageErrorMessage_spec example_classifier"
  by (simp add: example_lib_def storageUtils_spec_def)

lemma network_down_message:
  "getStorageErrorMessage example_lib network_down = ''Network error, please try again''"
  by (simp add: example_lib_def storageUtils_spec_def getStorageErrorMessage_spec_def
        example_classifier_def example_category_def network_down_def)

lemma ready_session_eq:
  "ready_session =
     \<lparr>selectedFile = Some jpeg_2MB, previewUrl = ''data:image/jpeg;base64,AAAA'',
      isUploading = False, uploadProgress = 0, error = [], calls = [ReadAsDataURL jpeg_2MB]\<rparr>"
  by (simp add: ready_session_def handleFileSelect_valid [OF jpeg_2MB_accepted]
        reader_onload_def init_session_def)

lemma uploading_session_eq:
  "uploading_session =
     \<lparr>selectedFile = Some jpeg_2MB, previewUrl = ''data:image/jpeg;base64,AAAA'',
      isUploading = True, uploadProgress = 0, error = [],
      calls = [ReadAsDataURL jpeg_2MB, UploadChatPhoto jpeg_2MB ''default'' ''u1'']\<rparr>"
  by (simp add: uploading_session_def ready_session_eq handleSendPhoto_def chatId_of_def
        userId_of_def example_props_def)

lemma failed_session_eq:
  "failed_session =
     \<lparr>selectedFile = Some jpeg_2MB, previewUrl = ''data:image/jpeg;base64,AAAA'',
      isUploading = False, uploadProgress = 40, error = ''Network error, please try again'',
      calls = [ReadAsDataURL jpeg_2MB, UploadChatPhoto jpeg_2MB ''default'' ''u1'',
               ConsoleError ''Error uploading photo:'' network_down]\<rparr>"
  by (simp add: failed_session_def sendPhoto_run_def ready_session_eq handleSendPhoto_def
        chatId_of_def userId_of_def example_props_def onProgress_def
        handleSendPhoto_settled_def catch_upload_def network_down_message)

subsection \<open>At most one upload in flight\<close>

text \<open>
  Every enabled event keeps the count of uploads in flight equal to 1 while
  \<open>isUploading\<close> and to 0 otherwise: "Send Photo" is enabled only while it is 0.
\<close>

lemma fire_inflight:
  assumes "enabled e (s, n)" and "n = (if isUploading s then 1 else 0)"
  shows "snd (fire lib p e (s, n)) = (if isUploading (fst (fire lib p e (s, n))) then 1 else 0)"
proof (cases e)
  case (FileChosen fo)
  then show ?thesis using assms
    by (simp add: handleFileSelect_def Let_def split: option.split)
next
  case (ReaderLoaded res)
  then show ?thesis using assms
    by (simp add: reader_onload_def split: option.split)
next
  case SendClicked
  then show ?thesis using assms
    by (simp add: handleSendPhoto_def sendButtonEnabled_def split: option.splits)
next
  case (ProgressEvent pr)
  then show ?thesis using assms by (simp add: onProgress_def)
next
  case (UploadSettled out cb)
  then show ?thesis using assms
    by (simp add: handleSendPhoto_settled_def catch_upload_def Let_def
          split: upload_outcome.split callback_outcome.split if_splits)
next
  case DiscardClicked
  then show ?thesis using assms by (simp add: discardFile_def)
next
  case CancelClicked
  then show ?thesis using assms by (simp add: handleCancel_def)
qed

lemma run_events_inflight:
  "run_events lib p es (s, n) = Some (t, k) \<Longrightarrow> n = (if isUploading s then 1 else 0)
     \<Longrightarrow> k = (if isUploading t then 1 else 0)"
proof (induction es arbitrary: s n)
  case Nil
  then show ?case by auto
next
  case (Cons e es)
  from Cons.prems(1) have en: "enabled e (s, n)"
    by (simp split: if_splits)
  obtain s' n' where f: "fire lib p e (s, n) = (s', n')"
    by (cases "fire lib p e (s, n)")
  from fire_inflight [OF en Cons.prems(2), of lib p] f
  have inv: "n' = (if isUploading s' then 1 else 0)" by simp
  from Cons.prems(1) en f have "run_events lib p es (s', n') = Some (t, k)" by simp
  from Cons.IH [OF this inv] show ?case .
qed

subsection \<open>Selecting a file\<close>

text \<open>
  Claim C1. A file the validator rejects leaves \<open>selectedFile\<close>, \<open>previewUrl\<close> and the
  list of calls as they were (no read, no upload), stores the validator's message, or
  \<open>Invalid file\<close> when it gives none, so a non-empty one, and, chosen through the file
  input (rendered while no file is selected), leaves the session \<open>Failed\<close>. With the
  validator of the specification the message is the one of the rule that failed: the
  type message for a MIME type that is not accepted, the size message otherwise.
\<close>

theorem validation_failure_sets_error:
  assumes rejected: "\<not> isValid (validateImageFile lib f)"
  shows "error (handleFileSelect lib (Some f) s) =
           (case verror (validateImageFile lib f) of
              None \<Rightarrow> ''Invalid file''
            | Some m \<Rightarrow> if m = [] then ''Invalid file'' else m)
         \<and> error (handleFileSelect lib (Some f) s) \<noteq> []
         \<and> selectedFile (handleFileSelect lib (Some f) s) = selectedFile s
         \<and> previewUrl (handleFileSelect lib (Some f) s) = previewUrl s
         \<and> calls (handleFileSelect lib (Some f) s) = calls s
         \<and> (fileInputRendered s \<longrightarrow> status_of (handleFileSelect lib (Some f) s) = Failed)
         \<and> (validateImageFile lib = validateImageFile_spec pol \<and> typeMessage pol \<noteq> []
              \<and> sizeMessage pol \<noteq> [] \<longrightarrow>
            error (handleFileSelect lib (Some f) s) =
              (if file_type f \<notin> set (acceptedTypes pol) then typeMessage pol
               else sizeMessage pol))"
proof -
  let ?s' = "handleFileSelect lib (Some f) s"
  have eq: "?s' = s\<lparr>error := (case verror (validateImageFile lib f) of
                    None \<Rightarrow> ''Invalid file''
                  | Some m \<Rightarrow> if m = [] then ''Invalid file'' else m)\<rparr>"
    using rejected by (rule handleFileSelect_invalid)
  have ne: "error ?s' \<noteq> []"
    unfolding eq by (simp split: option.split)
  have st: "fileInputRendered s \<longrightarrow> status_of ?s' = Failed"
    using ne by (simp add: eq fileInputRendered_def status_of_def)
  have sp: "validateImageFile lib = validateImageFile_spec pol \<and> typeMessage pol \<noteq> []
              \<and> sizeMessage pol \<noteq> [] \<longrightarrow>
            error ?s' = (if file_type f \<notin> set (acceptedTypes pol) then typeMessage pol
               else sizeMessage pol)"
    using rejected unfolding eq by (auto simp add: validateImageFile_spec_def split: if_splits)
  show ?thesis
    using ne st sp by (simp add: eq)
qed

text \<open>The 15 MB PNG fails on size and the PDF on type, each with its own message.\<close>

theorem validation_failure_sets_error_witness:
  "error (handleFileSelect example_lib (Some png_15MB) init_session) = ''The image is larger than 10MB''
   \<and> error (handleFileSelect example_lib (Some pdf_1KB) init_session) = ''Please choose an image file''
   \<and> selectedFile (handleFileSelect example_lib (Some png_15MB) init_session) = None
   \<and> calls (handleFileSelect example_lib (Some png_15MB) init_session) = []
   \<and> status_of (handleFileSelect example_lib (Some png_15MB) init_session) = Failed"
proof -
  have r: "fileInputRendered init_session"
    by (simp add: fileInputRendered_def init_session_def)
  have m: "typeMessage example_policy \<noteq> [] \<and> sizeMessage example_policy \<noteq> []"
    by (simp add: example_policy_def)
  have big: "file_type png_15MB \<in> set (acceptedTypes example_policy)"
    by (simp add: example_policy_def png_15MB_def)
  have pdf: "file_type pdf_1KB \<notin> set (acceptedTypes example_policy)"
    by (simp add: example_policy_def pdf_1KB_def)
  note a = validation_failure_sets_error [OF png_15MB_rejected, of init_session example_policy]
  note b = validation_failure_sets_error [OF pdf_1KB_rejected, of init_session example_policy]
  have "error (handleFileSelect example_lib (Some png_15MB) init_session) = sizeMessage example_policy"
    using a m big example_lib_validator by metis
  moreover have "error (handleFileSelect example_lib (Some pdf_1KB) init_session) = typeMessage example_policy"
    using b m pdf example_lib_validator by metis
  moreover have "selectedFile (handleFileSelect example_lib (Some png_15MB) init_session) = None"
    using a by (simp add: init_session_def)
  moreover have "calls (handleFileSelect example_lib (Some png_15MB) init_session) = []"
    using a by (simp add: init_session_def)
  moreover have "status_of (handleFileSelect example_lib (Some png_15MB) init_session) = Failed"
    using a r by blast
  ultimately show ?thesis
    by (simp add: example_policy_def)
qed

text \<open>
  Claim C3, as the code has it. A file the validator accepts is stored as
  \<open>selectedFile\<close> at once, the error is cleared and one read is started, while
  \<open>previewUrl\<close> stays as it was; "Send Photo" is enabled from then on whenever no upload
  is in flight, whether or not the preview has arrived. When the reader delivers a
  non-empty result, \<open>previewUrl\<close> is that result and the session, with no upload in
  flight, is \<open>Ready\<close>; a null or empty result changes nothing.
\<close>

theorem valid_file_selected_then_preview:
  assumes "isValid (validateImageFile lib f)"
  shows "selectedFile (handleFileSelect lib (Some f) s) = Some f
   \<and> error (handleFileSelect lib (Some f) s) = []
   \<and> previewUrl (handleFileSelect lib (Some f) s) = previewUrl s
   \<and> calls (handleFileSelect lib (Some f) s) = calls s @ [ReadAsDataURL f]
   \<and> sendButtonEnabled (handleFileSelect lib (Some f) s) = (\<not> isUploading s)
   \<and> (r \<noteq> [] \<longrightarrow>
        previewUrl (reader_onload (Some r) (handleFileSelect lib (Some f) s)) = r
        \<and> (\<not> isUploading s \<longrightarrow>
             status_of (reader_onload (Some r) (handleFileSelect lib (Some f) s)) = Ready))
   \<and> reader_onload None (handleFileSelect lib (Some f) s) = handleFileSelect lib (Some f) s
   \<and> reader_onload (Some []) (handleFileSelect lib (Some f) s) = handleFileSelect lib (Some f) s"
  by (simp add: handleFileSelect_valid [OF assms] sendButtonEnabled_def reader_onload_def
        status_of_def)

theorem valid_file_selected_then_preview_witness:
  "selectedFile (handleFileSelect example_lib (Some jpeg_2MB) init_session) = Some jpeg_2MB
   \<and> previewUrl (handleFileSelect example_lib (Some jpeg_2MB) init_session) = []
   \<and> sendButtonEnabled (handleFileSelect example_lib (Some jpeg_2MB) init_session)
   \<and> previewUrl ready_session = ''data:image/jpeg;base64,AAAA''
   \<and> status_of ready_session = Ready"
proof -
  have n: "''data:image/jpeg;base64,AAAA'' \<noteq> []" by simp
  have u: "\<not> isUploading init_session" by (simp add: init_session_def)
  have p: "previewUrl init_session = []" by (simp add: init_session_def)
  from valid_file_selected_then_preview [OF jpeg_2MB_accepted, of init_session
      "''data:image/jpeg;base64,AAAA''"] n u p
  show ?thesis unfolding ready_session_def by simp
qed

text \<open>
  Claim C3 as stated fails: right after the 2 MB JPEG is chosen in a fresh dialog,
  "Send Photo" is enabled while the preview is still empty, and a click there starts
  the upload.
\<close>

theorem preview_not_awaited_counterexample:
  "isValid (validateImageFile example_lib jpeg_2MB)
   \<and> sendButtonEnabled (handleFileSelect example_lib (Some jpeg_2MB) init_session)
   \<and> previewUrl (handleFileSelect example_lib (Some jpeg_2MB) init_session) = []
   \<and> status_of (handleFileSelect example_lib (Some jpeg_2MB) init_session) \<noteq> Ready
   \<and> calls (handleSendPhoto example_props (handleFileSelect example_lib (Some jpeg_2MB) init_session))
       = [ReadAsDataURL jpeg_2MB, UploadChatPhoto jpeg_2MB ''default'' ''u1'']"
  by (simp add: jpeg_2MB_accepted handleFileSelect_valid [OF jpeg_2MB_accepted] init_session_def
        sendButtonEnabled_def status_of_def handleSendPhoto_def chatId_of_def userId_of_def
        example_props_def)

subsection \<open>Sending\<close>

text \<open>
  Claim C2, as the code has it. \<open>handleSendPhoto\<close> is a no-op exactly when no file is
  selected. With a file selected it starts an upload and sets \<open>isUploading\<close>, whatever
  the other cells hold. A second call during an upload is kept away by the button,
  disabled while \<open>isUploading\<close>: in every state a mounted dialog reaches, at most one
  upload is in flight, and none where the button is enabled.
\<close>

theorem send_is_noop_without_file:
  "(handleSendPhoto p s = s) = (selectedFile s = None)
   \<and> (selectedFile s = Some f \<longrightarrow>
        calls (handleSendPhoto p s) = calls s @ [UploadChatPhoto f (chatId_of p) (userId_of p)]
        \<and> isUploading (handleSendPhoto p s))
   \<and> (isUploading s \<longrightarrow> \<not> sendButtonEnabled s)
   \<and> (run_events lib p es (init_session, 0) = Some (t, k) \<longrightarrow>
        k \<le> 1 \<and> (sendButtonEnabled t \<longrightarrow> k = 0))"
proof -
  have a: "selectedFile s = Some f \<longrightarrow>
        calls (handleSendPhoto p s) = calls s @ [UploadChatPhoto f (chatId_of p) (userId_of p)]
        \<and> isUploading (handleSendPhoto p s)"
    by (simp add: handleSendPhoto_def)
  have b: "isUploading s \<longrightarrow> \<not> sendButtonEnabled s"
    by (simp add: sendButtonEnabled_def split: option.split)
  have c: "run_events lib p es (init_session, 0) = Some (t, k) \<longrightarrow>
        k \<le> 1 \<and> (sendButtonEnabled t \<longrightarrow> k = 0)"
  proof
    assume r: "run_events lib p es (init_session, 0) = Some (t, k)"
    have "(0::nat) = (if isUploading init_session then 1 else 0)"
      by (simp add: init_session_def)
    from run_events_inflight [OF r this] have k: "k = (if isUploading t then 1 else 0)" .
    then show "k \<le> 1 \<and> (sendButtonEnabled t \<longrightarrow> k = 0)"
      by (simp add: sendButtonEnabled_def split: option.split)
  qed
  show ?thesis
    using handleSendPhoto_noop_iff [of p s] a b c by blast
qed

theorem send_is_noop_without_file_witness:
  "handleSendPhoto example_props init_session = init_session
   \<and> calls (handleSendPhoto example_props ready_session) =
       calls ready_session @ [UploadChatPhoto jpeg_2MB ''default'' ''u1'']
   \<and> isUploading (handleSendPhoto example_props ready_session)
   \<and> \<not> sendButtonEnabled uploading_session
   \<and> run_events example_lib example_props
        [FileChosen (Some jpeg_2MB), ReaderLoaded (Some ''data:image/jpeg;base64,AAAA''), SendClicked]
        (init_session, 0) = Some (uploading_session, 1)"
proof -
  have i: "selectedFile init_session = None"
    by (simp add: init_session_def)
  have r: "selectedFile ready_session = Some jpeg_2MB"
    by (simp add: ready_session_eq)
  have u: "isUploading uploading_session"
    by (simp add: uploading_session_eq)
  have e: "run_events example_lib example_props
        [FileChosen (Some jpeg_2MB), ReaderLoaded (Some ''data:image/jpeg;base64,AAAA''), SendClicked]
        (init_session, 0) = Some (uploading_session, 1)"
    using r
    by (simp add: fileInputRendered_def sendButtonEnabled_def uploading_session_def
          ready_session_def reader_onload_def i handleFileSelect_valid [OF jpeg_2MB_accepted]
          init_session_def)
  have ids: "chatId_of example_props = ''default'' \<and> userId_of example_props = ''u1''"
    by (simp add: chatId_of_def userId_of_def example_props_def)
  from send_is_noop_without_file [of example_props init_session jpeg_2MB example_lib "[]" init_session 0] i
  have 1: "handleSendPhoto example_props init_session = init_session" by blast
  from send_is_noop_without_file [of example_props ready_session jpeg_2MB example_lib "[]" init_session 0] r
  have 2: "calls (handleSendPhoto example_props ready_session) =
       calls ready_session @ [UploadChatPhoto jpeg_2MB (chatId_of example_props) (userId_of example_props)]
     \<and> isUploading (handleSendPhoto example_props ready_session)" by blast
  from send_is_noop_without_file [of example_props uploading_session jpeg_2MB example_lib
      "[FileChosen (Some jpeg_2MB), ReaderLoaded (Some ''data:image/jpeg;base64,AAAA''), SendClicked]"
      uploading_session 1] u e
  have 3: "\<not> sendButtonEnabled uploading_session" by blast
  show ?thesis using 1 2 3 e ids by simp
qed

text \<open>
  Claim C2 as stated fails. After a rejected upload the file is still selected and an
  error is stored, so the session is \<open>Failed\<close>, not \<open>Ready\<close>; the button is enabled and
  the handler starts a second upload. Called on the session that is \<open>Uploading\<close>, the
  handler itself starts another upload as well.
\<close>

theorem send_not_ready_counterexample:
  "status_of failed_session = Failed
   \<and> sendButtonEnabled failed_session
   \<and> handleSendPhoto example_props failed_session \<noteq> failed_session
   \<and> calls (handleSendPhoto example_props failed_session) =
       calls failed_session @ [UploadChatPhoto jpeg_2MB ''default'' ''u1'']
   \<and> status_of uploading_session = Uploading
   \<and> handleSendPhoto example_props uploading_session \<noteq> uploading_session
   \<and> calls (handleSendPhoto example_props uploading_session) =
       calls uploading_session @ [UploadChatPhoto jpeg_2MB ''default'' ''u1'']"
  by (simp add: failed_session_eq uploading_session_eq status_of_def handleSendPhoto_def
        chatId_of_def userId_of_def example_props_def sendButtonEnabled_def)

text \<open>
  Claim C4 fails on the code. The \<open>catch\<close> block of \<open>handleSendPhoto\<close> does not reset
  \<open>uploadProgress\<close>, and neither does \<open>finally\<close>: after a progress event of 40 and a
  rejected upload the session is \<open>Failed\<close> with the progress at 40, and it stays there
  when the file is discarded and another one is chosen. The \<open>finally\<close> block of the
  profile page, on the same events, has the progress back at 0.
\<close>

theorem progress_kept_after_failed_upload:
  "status_of failed_session = Failed
   \<and> uploadProgress failed_session = 40
   \<and> status_of (discardFile failed_session) = Failed
   \<and> uploadProgress (discardFile failed_session) = 40
   \<and> uploadProgress (handleFileSelect example_lib (Some png_15MB) (discardFile failed_session)) = 40
   \<and> uploadProgress_page
        (imageChange_run (Some jpeg_2MB) (Some example_user) [40] (Rejected network_down) 0
           WriteResolved example_page) = 0"
  by (simp add: failed_session_eq status_of_def discardFile_def imageChange_run_rejected
        handleFileSelect_uploadProgress)

subsection \<open>Cancelling\<close>

text \<open>
  Claim C5, as the code has it. \<open>handleCancel\<close>, from any state, clears \<open>selectedFile\<close>,
  \<open>previewUrl\<close>, \<open>uploadProgress\<close> and \<open>error\<close> and tells the parent once, through
  \<open>onCancel\<close>. It does not write \<open>isUploading\<close>: the session it leaves is idle exactly
  when no upload was under way, which in a mounted dialog is when none is in flight.
  Cancelled during an upload, the session keeps \<open>isUploading\<close> until that upload
  settles.
\<close>

theorem handleCancel_clears_cells:
  "selectedFile (handleCancel s) = None
   \<and> previewUrl (handleCancel s) = []
   \<and> uploadProgress (handleCancel s) = 0
   \<and> error (handleCancel s) = []
   \<and> calls (handleCancel s) = calls s @ [OnCancel]
   \<and> isUploading (handleCancel s) = isUploading s
   \<and> idle_session (handleCancel s) = (\<not> isUploading s)
   \<and> \<not> isUploading (handleSendPhoto_settled lib out cb (handleCancel s))
   \<and> (run_events lib p es (init_session, 0) = Some (s, 0) \<longrightarrow> idle_session (handleCancel s))"
proof -
  have c: "run_events lib p es (init_session, 0) = Some (s, 0) \<longrightarrow> idle_session (handleCancel s)"
  proof
    assume r: "run_events lib p es (init_session, 0) = Some (s, 0)"
    have "(0::nat) = (if isUploading init_session then 1 else 0)"
      by (simp add: init_session_def)
    from run_events_inflight [OF r this] have "\<not> isUploading s"
      by (simp split: if_splits)
    then show "idle_session (handleCancel s)"
      by (simp add: idle_session_def status_of_def handleCancel_def)
  qed
  have d: "\<not> isUploading (handleSendPhoto_settled lib out cb (handleCancel s))"
    by (simp add: handleSendPhoto_settled_def Let_def)
  show ?thesis
    using c d by (simp add: handleCancel_def idle_session_def status_of_def)
qed

text \<open>Cancelling the ready session leaves it idle; cancelling the uploading one clears the
  same cells and leaves \<open>isUploading\<close> set.\<close>

theorem handleCancel_clears_cells_witness:
  "idle_session (handleCancel ready_session)
   \<and> selectedFile (handleCancel uploading_session) = None
   \<and> previewUrl (handleCancel uploading_session) = []
   \<and> uploadProgress (handleCancel uploading_session) = 0
   \<and> error (handleCancel uploading_session) = []
   \<and> isUploading (handleCancel uploading_session)"
proof -
  have e: "run_events example_lib example_props
        [FileChosen (Some jpeg_2MB), ReaderLoaded (Some ''data:image/jpeg;base64,AAAA'')]
        (init_session, 0) = Some (ready_session, 0)"
    by (simp add: fileInputRendered_def ready_session_def init_session_def)
  have u: "isUploading uploading_session"
    by (simp add: uploading_session_eq)
  from handleCancel_clears_cells [of ready_session example_lib "Rejected network_down" Returned
      example_props "[FileChosen (Some jpeg_2MB), ReaderLoaded (Some ''data:image/jpeg;base64,AAAA'')]"] e
  have 1: "idle_session (handleCancel ready_session)" by blast
  from handleCancel_clears_cells [of uploading_session example_lib "Rejected network_down" Returned
      example_props "[]"] u
  have 2: "selectedFile (handleCancel uploading_session) = None
   \<and> previewUrl (handleCancel uploading_session) = []
   \<and> uploadProgress (handleCancel uploading_session) = 0
   \<and> error (handleCancel uploading_session) = []
   \<and> isUploading (handleCancel uploading_session)" by blast
  from 1 2 show ?thesis by blast
qed

text \<open>
  Claim C5 as stated fails for a cancel during an upload. Select, preview, send, cancel:
  one upload is in flight and \<open>isUploading\<close> is still set, so the session is not idle.
  It still takes the upload's events: a progress event of 60 is stored, a late result is
  handed to the parent after \<open>onCancel\<close>, a late rejection leaves the session \<open>Failed\<close>,
  and a file chosen meanwhile is shown as uploading, with "Send Photo" disabled.
\<close>

theorem cancel_during_upload_counterexample:
  "run_events example_lib example_props
     [FileChosen (Some jpeg_2MB), ReaderLoaded (Some ''data:image/jpeg;base64,AAAA''),
      SendClicked, CancelClicked]
     (init_session, 0) = Some (handleCancel uploading_session, 1)
   \<and> isUploading (handleCancel uploading_session)
   \<and> \<not> idle_session (handleCancel uploading_session)
   \<and> uploadProgress (onProgress 60 (handleCancel uploading_session)) = 60
   \<and> calls (handleSendPhoto_settled example_lib (Resolved example_result) Returned
        (handleCancel uploading_session)) =
       [ReadAsDataURL jpeg_2MB, UploadChatPhoto jpeg_2MB ''default'' ''u1'', OnCancel,
        OnPhotoSelected ''https://cdn.example/photo.jpg'' ''chats/default/photo.jpg'']
   \<and> status_of (handleSendPhoto_settled example_lib (Rejected network_down) Returned
        (handleCancel uploading_session)) = Failed
   \<and> status_of (reader_onload (Some ''data:image/jpeg;base64,AAAA'')
        (handleFileSelect example_lib (Some jpeg_2MB) (handleCancel uploading_session))) = Uploading
   \<and> \<not> sendButtonEnabled (reader_onload (Some ''data:image/jpeg;base64,AAAA'')
        (handleFileSelect example_lib (Some jpeg_2MB) (handleCancel uploading_session)))"
proof -
  have e: "run_events example_lib example_props
     [FileChosen (Some jpeg_2MB), ReaderLoaded (Some ''data:image/jpeg;base64,AAAA''),
      SendClicked, CancelClicked]
     (init_session, 0) = Some (handleCancel uploading_session, 1)"
    by (simp add: fileInputRendered_def sendButtonEnabled_def uploading_session_def
          ready_session_def reader_onload_def handleFileSelect_valid [OF jpeg_2MB_accepted]
          init_session_def)
  have c: "handleCancel uploading_session =
     \<lparr>selectedFile = None, previewUrl = [], isUploading = True, uploadProgress = 0,
      error = [],
      calls = [ReadAsDataURL jpeg_2MB, UploadChatPhoto jpeg_2MB ''default'' ''u1'', OnCancel]\<rparr>"
    by (simp add: uploading_session_eq handleCancel_def)
  show ?thesis
    unfolding c [symmetric]
    using e
    by (simp add: c idle_session_def onProgress_def handleSendPhoto_settled_def
          catch_upload_def example_result_def network_down_message status_of_def
          handleFileSelect_valid [OF jpeg_2MB_accepted] reader_onload_def
          sendButtonEnabled_def)
qed

subsection \<open>A failed upload\<close>

text \<open>
  Claim C6. When the upload is rejected with a raw error, the stored \<open>error\<close> is
  \<open>getStorageErrorMessage\<close> of that raw error, and the raw error itself goes to
  \<open>console.error\<close> and nowhere else. With the classifier of the specification the stored
  message is one of the four category messages, it is the same for any two raw errors of
  one category, and it differs from the raw message unless that is itself one of the
  four.
\<close>

theorem upload_failure_stores_classified_message:
  "error (handleSendPhoto_settled lib (Rejected e) cb s) = getStorageErrorMessage lib e
   \<and> calls (handleSendPhoto_settled lib (Rejected e) cb s) =
       calls s @ [ConsoleError ''Error uploading photo:'' e]
   \<and> selectedFile (handleSendPhoto_settled lib (Rejected e) cb s) = selectedFile s
   \<and> previewUrl (handleSendPhoto_settled lib (Rejected e) cb s) = previewUrl s
   \<and> \<not> isUploading (handleSendPhoto_settled lib (Rejected e) cb s)
   \<and> (getStorageErrorMessage lib = getStorageErrorMessage_spec cl \<longrightarrow>
        error (handleSendPhoto_settled lib (Rejected e) cb s) \<in> set (category_messages cl)
        \<and> (err_message e \<notin> set (category_messages cl) \<longrightarrow>
             error (handleSendPhoto_settled lib (Rejected e) cb s) \<noteq> err_message e)
        \<and> (categoryOf cl e' = categoryOf cl e \<longrightarrow>
             error (handleSendPhoto_settled lib (Rejected e') cb s) =
             error (handleSendPhoto_settled lib (Rejected e) cb s)))"
proof -
  have m: "messageOf cl c \<in> set (category_messages cl)" for c
    by (cases c) (simp_all add: category_messages_def)
  have e: "error (handleSendPhoto_settled lib (Rejected x) cb s) = getStorageErrorMessage lib x"
    for x
    by (simp add: handleSendPhoto_settled_def catch_upload_def)
  have sp: "getStorageErrorMessage lib = getStorageErrorMessage_spec cl \<longrightarrow>
        error (handleSendPhoto_settled lib (Rejected e) cb s) \<in> set (category_messages cl)
        \<and> (err_message e \<notin> set (category_messages cl) \<longrightarrow>
             error (handleSendPhoto_settled lib (Rejected e) cb s) \<noteq> err_message e)
        \<and> (categoryOf cl e' = categoryOf cl e \<longrightarrow>
             error (handleSendPhoto_settled lib (Rejected e') cb s) =
             error (handleSendPhoto_settled lib (Rejected e) cb s))"
    using m [of "categoryOf cl e"] by (auto simp add: e getStorageErrorMessage_spec_def)
  show ?thesis
    using sp by (simp add: handleSendPhoto_settled_def catch_upload_def)
qed

theorem upload_failure_stores_classified_message_witness:
  "error (handleSendPhoto_settled example_lib (Rejected network_down) Returned uploading_session)
     = ''Network error, please try again''
   \<and> error (handleSendPhoto_settled example_lib (Rejected network_down) Returned uploading_session)
     \<noteq> err_message network_down
   \<and> calls (handleSendPhoto_settled example_lib (Rejected network_down) Returned uploading_session)
     = calls uploading_session @ [ConsoleError ''Error uploading photo:'' network_down]"
proof -
  have n: "err_message network_down \<notin> set (category_messages example_classifier)"
    by (simp add: category_messages_def example_classifier_def network_down_def)
  note t = upload_failure_stores_classified_message
    [of example_lib network_down Returned uploading_session example_classifier network_down]
  from t have "error (handleSendPhoto_settled example_lib (Rejected network_down) Returned
      uploading_session) = ''Network error, please try again''"
    by (simp add: network_down_message)
  moreover from t n example_lib_classifier
  have "error (handleSendPhoto_settled example_lib (Rejected network_down) Returned
      uploading_session) \<noteq> err_message network_down"
    by blast
  moreover from t
  have "calls (handleSendPhoto_settled example_lib (Rejected network_down) Returned
      uploading_session) = calls uploading_session @ [ConsoleError ''Error uploading photo:'' network_down]"
    by blast
  ultimately show ?thesis by blast
qed

section \<open>Properties of the profile page\<close>

text \<open>
  Claim C7. When the upload gives a result, the handler issues one document write:
  \<open>updateDoc\<close> on \<open>users/<uid>\<close> of the current user with exactly the fields
  \<open>profileImage\<close>, \<open>profileImagePath\<close> and \<open>updatedAt\<close>, holding the \<open>url\<close> and \<open>path\<close>
  of the upload's result and the time of the call.
\<close>

theorem profile_write_three_fields:
  "calls_page (imageChange_run (Some f) (Some u) prs (Resolved r) now w s) =
     calls_page s @
       [UploadProfileImage f (uid u),
        UpdateDoc ''users'' (uid u)
          [(''profileImage'', VString (url r)),
           (''profileImagePath'', VString (path r)),
           (''updatedAt'', VDate now)]] @
       (case w of
          WriteResolved \<Rightarrow> [ConsoleLog ''Profile image uploaded successfully!'']
        | WriteRejected e \<Rightarrow>
            [ConsoleError ''Error uploading profile image:'' e,
             Alert ''Failed to upload image. Please try again.''])
   \<and> filter document_write (calls_page (imageChange_run (Some f) (Some u) prs (Resolved r) now w s)) =
       filter document_write (calls_page s) @
         [UpdateDoc ''users'' (uid u)
            [(''profileImage'', VString (url r)),
             (''profileImagePath'', VString (path r)),
             (''updatedAt'', VDate now)]]"
  by (simp add: imageChange_run_resolved profile_fields_def split: write_outcome.split)

theorem profile_write_three_fields_witness:
  "filter document_write
     (calls_page (imageChange_run (Some jpeg_2MB) (Some example_user) [0, 40, 100]
        (Resolved example_result) 1700000000 WriteResolved example_page)) =
     [UpdateDoc ''users'' ''u1''
        [(''profileImage'', VString ''https://cdn.example/photo.jpg''),
         (''profileImagePath'', VString ''chats/default/photo.jpg''),
         (''updatedAt'', VDate 1700000000)]]"
  using profile_write_three_fields [of jpeg_2MB example_user "[0, 40, 100]" example_result
      1700000000 WriteResolved example_page]
  by (simp add: example_user_def example_result_def example_page_def)

text \<open>
  Claim C8. When the write is rejected after the upload gave a result, the handler logs
  the raw error and raises the fixed alert \<open>Failed to upload image. Please try again.\<close>;
  the only call to the file storage in the whole run is the upload itself, so nothing
  removes the uploaded file. Whatever the outcomes of the upload and of the write,
  \<open>uploadingImage\<close> ends false and the progress at 0.
\<close>

theorem write_failure_alerts_and_settles:
  "calls_page (imageChange_run (Some f) (Some u) prs (Resolved r) now (WriteRejected e) s) =
     calls_page s @
       [UploadProfileImage f (uid u), UpdateDoc ''users'' (uid u) (profile_fields r now),
        ConsoleError ''Error uploading profile image:'' e,
        Alert ''Failed to upload image. Please try again.'']
   \<and> filter storage_call
       (calls_page (imageChange_run (Some f) (Some u) prs (Resolved r) now (WriteRejected e) s)) =
       filter storage_call (calls_page s) @ [UploadProfileImage f (uid u)]
   \<and> \<not> uploadingImage (imageChange_run (Some f) (Some u) prs out now w s)
   \<and> uploadProgress_page (imageChange_run (Some f) (Some u) prs out now w s) = 0"
proof (cases out)
  case (Resolved r')
  then show ?thesis by (simp add: imageChange_run_resolved)
next
  case (Rejected e')
  then show ?thesis by (simp add: imageChange_run_resolved imageChange_run_rejected)
qed

theorem write_failure_alerts_and_settles_witness:
  "calls_page (imageChange_run (Some jpeg_2MB) (Some example_user) [40] (Resolved example_result)
      1700000000 (WriteRejected permission_denied) example_page) =
     [UploadProfileImage jpeg_2MB ''u1'',
      UpdateDoc ''users'' ''u1'' (profile_fields example_result 1700000000),
      ConsoleError ''Error uploading profile image:'' permission_denied,
      Alert ''Failed to upload image. Please try again.'']
   \<and> \<not> uploadingImage (imageChange_run (Some jpeg_2MB) (Some example_user) [40]
      (Resolved example_result) 1700000000 (WriteRejected permission_denied) example_page)"
  using write_failure_alerts_and_settles [of jpeg_2MB example_user "[40]" example_result
      1700000000 permission_denied example_page "Resolved example_result"
      "WriteRejected permission_denied"]
  by (simp add: example_user_def example_page_def)

text \<open>
  Claim C9. Without a file, or without a signed-in user, \<open>handleImageChange\<close> returns at
  its guard: the three cells and the list of calls are as before, so no upload is
  started and no document is written.
\<close>

theorem imageChange_guard_is_noop:
  "handleImageChange None uo s = s
   \<and> handleImageChange fo None s = s
   \<and> imageChange_run None uo prs out now w s = s
   \<and> imageChange_run fo None prs out now w s = s"
  by (simp add: handleImageChange_def imageChange_run_def split: option.split)

theorem imageChange_guard_is_noop_witness:
  "handleImageChange None (Some example_user) example_page = example_page
   \<and> handleImageChange (Some jpeg_2MB) None example_page = example_page"
  using imageChange_guard_is_noop [of "Some example_user" example_page "Some jpeg_2MB"]
  by simp

text \<open>
  Claim C10. \<open>profileImage\<close> is set to the uploaded file's \<open>url\<close> when the upload
  resolves, before the write is awaited, and the \<open>catch\<close> and \<open>finally\<close> blocks leave it
  alone: after a rejected write it still holds that \<open>url\<close>, which the profile record
  does not.
\<close>

theorem profileImage_kept_after_write_failure:
  "profileImage (imageChange_run (Some f) (Some u) prs (Resolved r) now (WriteRejected e) s)
     = Some (url r)
   \<and> profileImage (handleImageChange_uploaded u now (Resolved r) s) = Some (url r)
   \<and> profileImage (handleImageChange_written (WriteRejected e) s) = profileImage s"
  by (simp add: imageChange_run_resolved handleImageChange_uploaded_def
        handleImageChange_written_def catch_page_def finally_page_def)

theorem profileImage_kept_after_write_failure_witness:
  "profileImage (imageChange_run (Some jpeg_2MB) (Some example_user) [40] (Resolved example_result)
      1700000000 (WriteRejected permission_denied) example_page)
     = Some ''https://cdn.example/photo.jpg''"
  using profileImage_kept_after_write_failure [of jpeg_2MB example_user "[40]" example_result
      1700000000 permission_denied example_page]
  by (simp add: example_result_def)

end
